theory Spec2Isabelle
  imports Main "HOL-Library.Sublist"
begin

section \<open>Python values used by \<open>simple_build/write/_git.py\<close>\<close>

text \<open>
  A \<open>bytes\<close> object is a list of 8-bit characters. A Python \<open>str\<close> is represented by
  the bytes that \<open>os.fsencode\<close> gives for it on a POSIX host whose filesystem encoding
  is UTF-8 (UTF-8 with the \<open>surrogateescape\<close> handler): under this representation
  \<open>os.fsdecode\<close> keeps the bytes as they are, string concatenation is list
  concatenation, and the character \<open>/\<close> of a \<open>str\<close> is exactly the byte \<open>0x2F\<close>.
\<close>

type_synonym bytes = string

definition NUL :: char where
  "NUL = CHR 0x00"

definition fsdecode :: "bytes \<Rightarrow> string" where
  "fsdecode b = b"

text \<open>
  \<open>bytes.strip(chars)\<close>: drop every leading and every trailing byte that occurs in
  \<open>chars\<close>.
\<close>

definition strip :: "bytes \<Rightarrow> bytes \<Rightarrow> bytes" where
  "strip chars bs =
     rev (dropWhile (\<lambda>c. c \<in> set chars) (rev (dropWhile (\<lambda>c. c \<in> set chars) bs)))"

text \<open>
  \<open>bs.split(sep)\<close> for a one-byte separator, as a scan from the left: \<open>cur\<close> is the
  field being read. The result always has one field more than \<open>bs\<close> has separators, so
  the empty input gives one empty field.
\<close>

fun split_from :: "char \<Rightarrow> bytes \<Rightarrow> bytes \<Rightarrow> bytes list" where
  "split_from sep cur [] = [cur]"
| "split_from sep cur (c # cs) =
     (if c = sep then cur # split_from sep [] cs else split_from sep (cur @ [c]) cs)"

definition split :: "char \<Rightarrow> bytes \<Rightarrow> bytes list" where
  "split sep bs = split_from sep [] bs"

text \<open>\<open>sep.join(parts)\<close>.\<close>

fun join :: "string \<Rightarrow> string list \<Rightarrow> string" where
  "join sep [] = []"
| "join sep [x] = x"
| "join sep (x # y # ys) = x @ sep @ join sep (y # ys)"

section \<open>Paths (\<open>pathlib\<close> on a POSIX host)\<close>

text \<open>
  A parsed path: its anchor (\<open>''''\<close> for a relative path, \<open>''/''\<close> or \<open>''//''\<close> for an
  absolute one; the drive is always empty on POSIX) and the components after it.
  Two paths are equal in Python exactly when both agree.
\<close>

record PurePath =
  anchor :: string
  tail :: "string list"

text \<open>\<open>posixpath.splitroot\<close>, without the drive: the root and the rest.\<close>

definition splitroot :: "string \<Rightarrow> string \<times> string" where
  "splitroot p =
     (if take 1 p \<noteq> ''/'' then ('''', p)
      else if take 1 (drop 1 p) \<noteq> ''/'' \<or> take 1 (drop 2 p) = ''/'' then (''/'', drop 1 p)
      else (take 2 p, drop 2 p))"

text \<open>
  \<open>PurePosixPath(s)\<close>: the rest is cut at every \<open>/\<close>; empty components and \<open>.\<close> are
  dropped, \<open>..\<close> is kept.
\<close>

definition PurePosixPath :: "string \<Rightarrow> PurePath" where
  "PurePosixPath s =
     (case splitroot s of
        (r, rel) \<Rightarrow>
          \<lparr>anchor = r, tail = filter (\<lambda>x. x \<noteq> [] \<and> x \<noteq> ''.'') (split CHR ''/'' rel)\<rparr>)"

text \<open>The argument \<open>Path | str\<close> of \<open>find_git_root\<close> and of \<open>GitFolder\<close>.\<close>

datatype path_like = OfPath PurePath | OfStr string

fun Path :: "path_like \<Rightarrow> PurePath" where
  "Path (OfPath p) = p"
| "Path (OfStr s) = PurePosixPath s"

text \<open>\<open>p / q\<close>: an absolute right operand replaces the left one.\<close>

definition truediv :: "PurePath \<Rightarrow> PurePath \<Rightarrow> PurePath" where
  "truediv p q = (if anchor q \<noteq> [] then q else \<lparr>anchor = anchor p, tail = tail p @ tail q\<rparr>)"

text \<open>\<open>p.parent\<close>: a path with no component is its own parent.\<close>

definition parent :: "PurePath \<Rightarrow> PurePath" where
  "parent p = (if tail p = [] then p else p\<lparr>tail := butlast (tail p)\<rparr>)"

text \<open>\<open>str(p)\<close>.\<close>

definition PurePath_str :: "PurePath \<Rightarrow> string" where
  "PurePath_str p =
     (if anchor p = [] \<and> tail p = [] then ''.'' else anchor p @ join ''/'' (tail p))"

section \<open>Exceptions\<close>

text \<open>
  The classes of lines 8 to 17 of the module, and the classes of the standard library
  that can reach its handlers.
\<close>

datatype exn_class =
    BaseException | Exception
  | GitError | NotGitRepositoryError | GitNotFoundError
  | OSError | FileNotFoundError | PermissionError | NotADirectoryError
  | RuntimeError | ValueError | UnicodeError | UnicodeDecodeError
  | SubprocessError | CalledProcessError

text \<open>The method resolution order of each class: itself, then its bases.\<close>

fun mro :: "exn_class \<Rightarrow> exn_class list" where
  "mro BaseException = [BaseException]"
| "mro Exception = [Exception, BaseException]"
| "mro GitError = [GitError, Exception, BaseException]"
| "mro NotGitRepositoryError = [NotGitRepositoryError, GitError, Exception, BaseException]"
| "mro GitNotFoundError = [GitNotFoundError, GitError, Exception, BaseException]"
| "mro OSError = [OSError, Exception, BaseException]"
| "mro FileNotFoundError = [FileNotFoundError, OSError, Exception, BaseException]"
| "mro PermissionError = [PermissionError, OSError, Exception, BaseException]"
| "mro NotADirectoryError = [NotADirectoryError, OSError, Exception, BaseException]"
| "mro RuntimeError = [RuntimeError, Exception, BaseException]"
| "mro ValueError = [ValueError, Exception, BaseException]"
| "mro UnicodeError = [UnicodeError, ValueError, Exception, BaseException]"
| "mro UnicodeDecodeError =
     [UnicodeDecodeError, UnicodeError, ValueError, Exception, BaseException]"
| "mro SubprocessError = [SubprocessError, Exception, BaseException]"
| "mro CalledProcessError = [CalledProcessError, SubprocessError, Exception, BaseException]"

definition issubclass :: "exn_class \<Rightarrow> exn_class \<Rightarrow> bool" where
  "issubclass c d = (d \<in> set (mro c))"

text \<open>
  An exception that leaves a function of the module: \<open>Raised c m\<close> is raised by the
  module itself with class \<open>c\<close> and message \<open>m\<close>; \<open>Propagated c\<close> is an exception of
  class \<open>c\<close> raised by the standard library that no handler of the module catches.
\<close>

datatype exn = Raised exn_class string | Propagated exn_class

fun class_of :: "exn \<Rightarrow> exn_class" where
  "class_of (Raised c m) = c"
| "class_of (Propagated c) = c"

text \<open>\<open>except d\<close> catches \<open>e\<close>.\<close>

definition catches :: "exn_class \<Rightarrow> exn \<Rightarrow> bool" where
  "catches d e = issubclass (class_of e) d"

section \<open>The world outside the module\<close>

text \<open>
  What a child process did: it ran and exited with a status, its standard output and
  its standard error; or it could not be started, and \<open>subprocess\<close> raised an
  exception of the given class.
\<close>

datatype proc_result = Exited int bytes bytes | NotStarted exn_class

text \<open>
  The state of the filesystem and of the external tool at the moment of a call:
  the answer of \<open>Path.is_dir\<close> (as \<open>os.path.isdir\<close> gives it: \<open>False\<close> for a path that
  is missing or cannot be examined), the result of \<open>Path.resolve\<close> (a path, or the
  class of the exception it raises, as when the current directory of the process is
  gone), and what running a command line in a working directory does. The last field
  belongs to the interpreter: \<open>repr\<close> of a \<open>str\<close> that has a character beyond ASCII,
  which depends on the interpreter's Unicode tables.
\<close>

record world =
  is_dir :: "PurePath \<Rightarrow> bool"
  resolve :: "PurePath \<Rightarrow> exn_class + PurePath"
  run_process :: "string list \<Rightarrow> string \<Rightarrow> proc_result"
  repr_unicode :: "string \<Rightarrow> string"

section \<open>\<open>find_git_root\<close>\<close>

text \<open>
  The loop of lines 28 to 33. It ends: a path that is not its own parent has a parent
  with one component less.
\<close>

function find_git_root_loop :: "world \<Rightarrow> PurePath \<Rightarrow> PurePath option" where
  "find_git_root_loop w path =
     (if \<not> is_dir w (truediv path (PurePosixPath ''.git'')) then
        (if path = parent path then None else find_git_root_loop w (parent path))
      else Some path)"
  by pat_completeness auto
termination
proof (relation "measure (\<lambda>(w, path). length (tail path))")
  show "wf (measure (\<lambda>(w, path). length (tail path)))"
    by simp
next
  fix w :: world and path :: PurePath
  assume "path \<noteq> parent path"
  then have "tail path \<noteq> []"
    by (auto simp: parent_def)
  then show "((w, parent path), (w, path)) \<in> measure (\<lambda>(w, path). length (tail path))"
    by (simp add: parent_def)
qed

declare find_git_root_loop.simps [simp del]

definition find_git_root :: "world \<Rightarrow> path_like \<Rightarrow> PurePath option" where
  "find_git_root w path = find_git_root_loop w (Path path)"

text \<open>
  The directory \<open>d\<close> directly contains the repository marker: the test of line 28.
\<close>

definition has_marker :: "world \<Rightarrow> PurePath \<Rightarrow> bool" where
  "has_marker w d = is_dir w (truediv d (PurePosixPath ''.git''))"

text \<open>
  \<open>d\<close> is \<open>p\<close> or one of its ancestors (\<open>d == p or d in p.parents\<close>): the same anchor,
  and the components of \<open>d\<close> are the first components of \<open>p\<close>.
\<close>

definition ancestor_or_self :: "PurePath \<Rightarrow> PurePath \<Rightarrow> bool" where
  "ancestor_or_self d p = (anchor d = anchor p \<and> prefix (tail d) (tail p))"

section \<open>Text: \<open>bytes.decode\<close> and \<open>repr\<close>\<close>

text \<open>
  \<open>b.decode()\<close>: strict UTF-8. A byte sequence that is not well-formed UTF-8 (a stray
  continuation byte, a truncated or overlong sequence, a surrogate, a code point beyond
  \<open>U+10FFFF\<close>) raises \<open>UnicodeDecodeError\<close>: the value \<open>None\<close>. A well-formed one
  decodes to the \<open>str\<close> it represents.
\<close>

definition continuation :: "nat \<Rightarrow> bool" where
  "continuation b = (0x80 \<le> b \<and> b \<le> 0xBF)"

fun utf8_valid :: "nat list \<Rightarrow> bool" where
  "utf8_valid [] = True"
| "utf8_valid (b # bs) =
     (if b < 0x80 then utf8_valid bs
      else if 0xC2 \<le> b \<and> b \<le> 0xDF then
        (case bs of
           c1 # r \<Rightarrow> continuation c1 \<and> utf8_valid r
         | _ \<Rightarrow> False)
      else if 0xE0 \<le> b \<and> b \<le> 0xEF then
        (case bs of
           c1 # c2 # r \<Rightarrow>
             (if b = 0xE0 then 0xA0 \<le> c1 \<and> c1 \<le> 0xBF
              else if b = 0xED then 0x80 \<le> c1 \<and> c1 \<le> 0x9F
              else continuation c1) \<and>
             continuation c2 \<and> utf8_valid r
         | _ \<Rightarrow> False)
      else if 0xF0 \<le> b \<and> b \<le> 0xF4 then
        (case bs of
           c1 # c2 # c3 # r \<Rightarrow>
             (if b = 0xF0 then 0x90 \<le> c1 \<and> c1 \<le> 0xBF
              else if b = 0xF4 then 0x80 \<le> c1 \<and> c1 \<le> 0x8F
              else continuation c1) \<and>
             continuation c2 \<and> continuation c3 \<and> utf8_valid r
         | _ \<Rightarrow> False)
      else False)"

definition decode :: "bytes \<Rightarrow> string option" where
  "decode b = (if utf8_valid (map of_char b) then Some b else None)"

text \<open>
  \<open>repr(s)\<close> of a \<open>str\<close> of ASCII characters: single quotes around it, unless it has a
  single quote and no double quote; a backslash before the quote character and before a
  backslash; \<open>\t\<close>, \<open>\n\<close>, \<open>\r\<close> and \<open>\xNN\<close> for control characters.
\<close>

definition hexdigit :: "nat \<Rightarrow> char" where
  "hexdigit n = ''0123456789abcdef'' ! (n mod 16)"

definition repr_quote :: "string \<Rightarrow> char" where
  "repr_quote s = (if CHR 0x27 \<in> set s \<and> CHR 0x22 \<notin> set s then CHR 0x22 else CHR 0x27)"

definition repr_char :: "char \<Rightarrow> char \<Rightarrow> string" where
  "repr_char q c =
     (if c = q \<or> c = CHR 0x5C then [CHR 0x5C, c]
      else if c = CHR 0x09 then [CHR 0x5C, CHR ''t'']
      else if c = CHR 0x0A then [CHR 0x5C, CHR ''n'']
      else if c = CHR 0x0D then [CHR 0x5C, CHR ''r'']
      else if (of_char c :: nat) < 0x20 \<or> c = CHR 0x7F then
        [CHR 0x5C, CHR ''x'', hexdigit (of_char c div 16), hexdigit (of_char c)]
      else [c])"

definition repr_ascii :: "string \<Rightarrow> string" where
  "repr_ascii s = [repr_quote s] @ concat (map (repr_char (repr_quote s)) s) @ [repr_quote s]"

definition repr :: "world \<Rightarrow> string \<Rightarrow> string" where
  "repr w s =
     (if list_all (\<lambda>c. (of_char c :: nat) < 0x80) s then repr_ascii s else repr_unicode w s)"

section \<open>\<open>GitFolder\<close>\<close>

text \<open>The fields \<open>_cwd\<close>, \<open>_root\<close> and \<open>_git_exec\<close> of a handle.\<close>

record GitFolder =
  cwd :: PurePath
  root :: PurePath
  git_exec :: string

text \<open>
  \<open>GitFolder(cwd, git_exec)\<close>, lines 39 to 52; \<open>None\<close> for \<open>git_exec\<close> is the default
  \<open>"git"\<close>. The result is the new handle, or the exception that leaves the constructor.
\<close>

definition GitFolder_init :: "world \<Rightarrow> path_like \<Rightarrow> string option \<Rightarrow> exn + GitFolder" where
  "GitFolder_init w c g =
     (case resolve w (Path c) of
        Inl e \<Rightarrow> Inl (Propagated e)
      | Inr d \<Rightarrow>
          (case find_git_root w (OfPath d) of
             None \<Rightarrow>
               Inl (Raised NotGitRepositoryError
                      (''Unable to find git repository root from: '' @ PurePath_str d))
           | Some r \<Rightarrow>
               Inr \<lparr>cwd = d, root = r, git_exec = (case g of None \<Rightarrow> ''git'' | Some x \<Rightarrow> x)\<rparr>))"

text \<open>
  \<open>subprocess.check_output(command, cwd=d, stderr=subprocess.PIPE)\<close>: the standard
  output of a child that exits with status 0; \<open>CalledProcessError\<close>, carrying the
  status, the output and the standard error, for any other status; and the exception of
  a child that could not be started (an \<open>OSError\<close> or a \<open>ValueError\<close>, never a
  \<open>CalledProcessError\<close>).
\<close>

datatype check_output_result =
    Returns bytes
  | Raises_CalledProcessError int bytes bytes
  | Raises exn_class

definition check_output :: "world \<Rightarrow> string list \<Rightarrow> string \<Rightarrow> check_output_result" where
  "check_output w command d =
     (case run_process w command d of
        NotStarted c \<Rightarrow> Raises c
      | Exited returncode out err \<Rightarrow>
          if returncode = 0 then Returns out else Raises_CalledProcessError returncode out err)"

text \<open>
  The methods take the handle and return their result, or the exception that leaves
  them, together with the handle as the call leaves it.

  \<open>run_git\<close>, lines 67 to 86. The message of line 84 is built inside the second handler:
  when \<open>err.stderr.decode()\<close> raises there, that \<open>UnicodeDecodeError\<close> is what leaves
  the method. An exception of \<open>check_output\<close> that neither handler catches leaves the
  method as it is.
\<close>

definition run_git :: "world \<Rightarrow> string list \<Rightarrow> GitFolder \<Rightarrow> (exn + bytes) \<times> GitFolder" where
  "run_git w args self =
     (let command = git_exec self # args in
      (case check_output w command (PurePath_str (cwd self)) of
         Returns outb \<Rightarrow> (Inr outb, self)
       | Raises c \<Rightarrow>
           if issubclass c FileNotFoundError then (Inl (Raised GitNotFoundError []), self)
           else (Inl (Propagated c), self)
       | Raises_CalledProcessError returncode out err \<Rightarrow>
           (case decode err of
              None \<Rightarrow> (Inl (Propagated UnicodeDecodeError), self)
            | Some text \<Rightarrow>
                (Inl (Raised GitError
                        (''git command '' @ repr w (join '' '' command) @ '' failed in '' @
                         PurePath_str (cwd self) @ '': '' @ text)),
                 self))))"

text \<open>
  The set comprehension that lines 91 to 95, 100 to 104 and 109 to 113 repeat word
  for word. \<open>records\<close> is its iteration
  \<open>for loc in outb.strip(b"\0").split(b"\0") if loc\<close>, the non-empty fields of the
  stripped output; each is decoded, parsed and joined to the working directory.
\<close>

definition records :: "bytes \<Rightarrow> bytes list" where
  "records outb = filter (\<lambda>loc. loc \<noteq> []) (split NUL (strip [NUL] outb))"

definition path_set :: "PurePath \<Rightarrow> bytes \<Rightarrow> PurePath set" where
  "path_set d outb = set (map (\<lambda>loc. truediv d (PurePosixPath (fsdecode loc))) (records outb))"

definition tracked_files :: "world \<Rightarrow> GitFolder \<Rightarrow> (exn + PurePath set) \<times> GitFolder" where
  "tracked_files w self =
     (case run_git w [''ls-files'', ''--recurse-submodules'', ''-z''] self of
        (Inl e, self') \<Rightarrow> (Inl e, self')
      | (Inr outb, self') \<Rightarrow> (Inr (path_set (cwd self') outb), self'))"

definition new_files :: "world \<Rightarrow> GitFolder \<Rightarrow> (exn + PurePath set) \<times> GitFolder" where
  "new_files w self =
     (case run_git w [''ls-files'', ''--others'', ''--exclude-standard'', ''-z''] self of
        (Inl e, self') \<Rightarrow> (Inl e, self')
      | (Inr outb, self') \<Rightarrow> (Inr (path_set (cwd self') outb), self'))"

definition removed_files :: "world \<Rightarrow> GitFolder \<Rightarrow> (exn + PurePath set) \<times> GitFolder" where
  "removed_files w self =
     (case run_git w [''ls-files'', ''--deleted'', ''-z''] self of
        (Inl e, self') \<Rightarrow> (Inl e, self')
      | (Inr outb, self') \<Rightarrow> (Inr (path_set (cwd self') outb), self'))"

section \<open>Sequences of calls on one handle\<close>

datatype query = Tracked_files | New_files | Removed_files

fun run_query :: "world \<Rightarrow> query \<Rightarrow> GitFolder \<Rightarrow> (exn + PurePath set) \<times> GitFolder" where
  "run_query w Tracked_files self = tracked_files w self"
| "run_query w New_files self = new_files w self"
| "run_query w Removed_files self = removed_files w self"

text \<open>The arguments each query passes to \<open>run_git\<close>: lines 90, 99 and 108.\<close>

fun query_args :: "query \<Rightarrow> string list" where
  "query_args Tracked_files = [''ls-files'', ''--recurse-submodules'', ''-z'']"
| "query_args New_files = [''ls-files'', ''--others'', ''--exclude-standard'', ''-z'']"
| "query_args Removed_files = [''ls-files'', ''--deleted'', ''-z'']"

text \<open>
  A session of queries, each against the world as it is when the query runs: the result
  of every query, with the handle as that query leaves it.
\<close>

fun run_queries ::
  "(world \<times> query) list \<Rightarrow> GitFolder \<Rightarrow> ((exn + PurePath set) \<times> GitFolder) list" where
  "run_queries [] self = []"
| "run_queries ((w, q) # qs) self =
     run_query w q self # run_queries qs (snd (run_query w q self))"

text \<open>Any operation of a handle: a query, or \<open>run_git\<close> with arguments of the caller.\<close>

datatype operation = Query query | Run_git "string list"

fun handle_after :: "world \<Rightarrow> operation \<Rightarrow> GitFolder \<Rightarrow> GitFolder" where
  "handle_after w (Query q) self = snd (run_query w q self)"
| "handle_after w (Run_git args) self = snd (run_git w args self)"

fun handles_after :: "(world \<times> operation) list \<Rightarrow> GitFolder \<Rightarrow> GitFolder list" where
  "handles_after [] self = []"
| "handles_after ((w, x) # xs) self =
     handle_after w x self # handles_after xs (handle_after w x self)"

section \<open>What a caller sees\<close>

text \<open>
  A \<open>try\<close> statement with the clauses \<open>except d\<close> in the order of \<open>ds\<close>: the first clause
  that catches \<open>e\<close>, if any.
\<close>

fun first_catching :: "exn_class list \<Rightarrow> exn \<Rightarrow> exn_class option" where
  "first_catching [] e = None"
| "first_catching (d # ds) e = (if catches d e then Some d else first_catching ds e)"

section \<open>The parsing contract in the specification's words\<close>



section \<open>Scenarios\<close>

text \<open>
  The filesystem of the scenarios: the directories \<open>/\<close>, \<open>/repo\<close>, \<open>/repo/.git\<close>,
  \<open>/repo/sub\<close> and \<open>/repo/sub/deep\<close> and nothing else, no symbolic link (an absolute
  path resolves to itself), and an external tool whose every run gives \<open>r\<close>.
\<close>

definition scenario_world :: "proc_result \<Rightarrow> world" where
  "scenario_world r =
     \<lparr>is_dir = (\<lambda>p. p \<in> set [\<lparr>anchor = ''/'', tail = []\<rparr>,
                               \<lparr>anchor = ''/'', tail = [''repo'']\<rparr>,
                               \<lparr>anchor = ''/'', tail = [''repo'', ''.git'']\<rparr>,
                               \<lparr>anchor = ''/'', tail = [''repo'', ''sub'']\<rparr>,
                               \<lparr>anchor = ''/'', tail = [''repo'', ''sub'', ''deep'']\<rparr>]),
      resolve = Inr,
      run_process = (\<lambda>command d. r),
      repr_unicode = (\<lambda>s. s)\<rparr>"

text \<open>The handle of the scenarios: working directory \<open>/repo/sub\<close> in the repository \<open>/repo\<close>.\<close>

definition scenario_handle :: GitFolder where
  "scenario_handle =
     \<lparr>cwd = \<lparr>anchor = ''/'', tail = [''repo'', ''sub'']\<rparr>,
      root = \<lparr>anchor = ''/'', tail = [''repo'']\<rparr>,
      git_exec = ''git''\<rparr>"

section \<open>Facts about paths\<close>


lemma ancestor_or_self_parent:
  assumes "tail p \<noteq> []"
  shows "ancestor_or_self d p \<longleftrightarrow> d = p \<or> ancestor_or_self d (parent p)"
proof -
  obtain ys y where t: "tail p = ys @ [y]"
    using assms by (metis append_butlast_last_id)
  then show ?thesis
    by (auto simp: ancestor_or_self_def parent_def intro: PurePath.equality)
qed



section \<open>The root locator\<close>


lemma loop_Some:
  "find_git_root_loop w p = Some r \<Longrightarrow>
     ancestor_or_self r p \<and> has_marker w r \<and>
     (\<forall>d. ancestor_or_self d p \<and> length (tail r) < length (tail d) \<longrightarrow> \<not> has_marker w d)"
proof (induction w p rule: find_git_root_loop.induct)
  case (1 w path)
  show ?case
  proof (cases "has_marker w path")
    case True
    then have "r = path"
      using 1(2) by (simp add: find_git_root_loop.simps [of w path] has_marker_def)
    with True show ?thesis
      by (auto simp: ancestor_or_self_def dest: prefix_length_le)
  next
    case False
    then have rec: "path \<noteq> parent path" "find_git_root_loop w (parent path) = Some r"
      using 1(2)
      by (auto simp: find_git_root_loop.simps [of w path] has_marker_def split: if_splits)
    then have ne: "tail path \<noteq> []"
      by (auto simp: parent_def)
    have ih: "ancestor_or_self r (parent path) \<and> has_marker w r \<and>
       (\<forall>d. ancestor_or_self d (parent path) \<and> length (tail r) < length (tail d)
          \<longrightarrow> \<not> has_marker w d)"
      using 1(1) False rec by (simp add: has_marker_def)
    with False show ?thesis
      by (auto simp: ancestor_or_self_parent [OF ne])
  qed
qed



lemma find_git_root_Some_ancestor:
  "find_git_root w p = Some r \<Longrightarrow> ancestor_or_self r (Path p) \<and> has_marker w r"
  using loop_Some [of w "Path p" r] by (simp add: find_git_root_def)


section \<open>Splitting the output into records\<close>






section \<open>Joining a record to the working directory\<close>

lemma truediv_relative:
  "take 1 s \<noteq> ''/'' \<Longrightarrow>
   truediv d (PurePosixPath s) =
     \<lparr>anchor = anchor d,
      tail = tail d @ filter (\<lambda>x. x \<noteq> [] \<and> x \<noteq> ''.'') (split CHR ''/'' s)\<rparr>"
  by (simp add: truediv_def PurePosixPath_def splitroot_def)

lemma PurePosixPath_absolute: "take 1 s = ''/'' \<Longrightarrow> anchor (PurePosixPath s) \<noteq> []"
  by (cases s) (auto simp: PurePosixPath_def splitroot_def)

lemma truediv_absolute: "take 1 s = ''/'' \<Longrightarrow> truediv d (PurePosixPath s) = PurePosixPath s"
  using PurePosixPath_absolute [of s] by (simp add: truediv_def)

section \<open>What the methods return, and the handle they leave\<close>

lemma run_git_handle: "snd (run_git w args self) = self"
  by (simp add: run_git_def Let_def split: check_output_result.splits option.splits)

lemma run_git_started:
  "run_process w (git_exec self # args) (PurePath_str (cwd self)) = Exited rc out err \<Longrightarrow>
   fst (run_git w args self) =
     (if rc = 0 then Inr out
      else case decode err of
             None \<Rightarrow> Inl (Propagated UnicodeDecodeError)
           | Some text \<Rightarrow>
               Inl (Raised GitError
                      (''git command '' @ repr w (join '' '' (git_exec self # args)) @
                       '' failed in '' @ PurePath_str (cwd self) @ '': '' @ text)))"
  by (simp add: run_git_def check_output_def Let_def split: option.splits)


lemma tracked_files_result:
  "fst (tracked_files w self) =
     map_sum id (path_set (cwd self))
       (fst (run_git w [''ls-files'', ''--recurse-submodules'', ''-z''] self))"
  using run_git_handle [of w "[''ls-files'', ''--recurse-submodules'', ''-z'']" self]
  by (cases "run_git w [''ls-files'', ''--recurse-submodules'', ''-z''] self")
     (auto simp: tracked_files_def split: sum.splits)

lemma new_files_result:
  "fst (new_files w self) =
     map_sum id (path_set (cwd self))
       (fst (run_git w [''ls-files'', ''--others'', ''--exclude-standard'', ''-z''] self))"
  using run_git_handle [of w "[''ls-files'', ''--others'', ''--exclude-standard'', ''-z'']" self]
  by (cases "run_git w [''ls-files'', ''--others'', ''--exclude-standard'', ''-z''] self")
     (auto simp: new_files_def split: sum.splits)

lemma removed_files_result:
  "fst (removed_files w self) =
     map_sum id (path_set (cwd self)) (fst (run_git w [''ls-files'', ''--deleted'', ''-z''] self))"
  using run_git_handle [of w "[''ls-files'', ''--deleted'', ''-z'']" self]
  by (cases "run_git w [''ls-files'', ''--deleted'', ''-z''] self")
     (auto simp: removed_files_def split: sum.splits)

lemma tracked_files_handle: "snd (tracked_files w self) = self"
  using run_git_handle [of w "[''ls-files'', ''--recurse-submodules'', ''-z'']" self]
  by (cases "run_git w [''ls-files'', ''--recurse-submodules'', ''-z''] self")
     (auto simp: tracked_files_def split: sum.splits)

lemma new_files_handle: "snd (new_files w self) = self"
  using run_git_handle [of w "[''ls-files'', ''--others'', ''--exclude-standard'', ''-z'']" self]
  by (cases "run_git w [''ls-files'', ''--others'', ''--exclude-standard'', ''-z''] self")
     (auto simp: new_files_def split: sum.splits)

lemma removed_files_handle: "snd (removed_files w self) = self"
  using run_git_handle [of w "[''ls-files'', ''--deleted'', ''-z'']" self]
  by (cases "run_git w [''ls-files'', ''--deleted'', ''-z''] self")
     (auto simp: removed_files_def split: sum.splits)

lemma run_query_result:
  "fst (run_query w q self) =
     map_sum id (path_set (cwd self)) (fst (run_git w (query_args q) self))"
  by (cases q) (simp_all add: tracked_files_result new_files_result removed_files_result)

lemma run_query_output:
  "run_process w (git_exec self # query_args q) (PurePath_str (cwd self)) = Exited 0 outb err \<Longrightarrow>
   fst (run_query w q self) = Inr (path_set (cwd self) outb)"
  by (simp add: run_query_result run_git_started)

lemma run_query_handle: "snd (run_query w q self) = self"
  by (cases q) (simp_all add: tracked_files_handle new_files_handle removed_files_handle)

lemma handle_after_same: "handle_after w x self = self"
  by (cases x) (simp_all add: run_query_handle run_git_handle)

lemma handles_after_same: "h \<in> set (handles_after xs self) \<Longrightarrow> h = self"
  by (induction xs self rule: handles_after.induct) (auto simp: handle_after_same)

lemma run_queries_same: "(r, h) \<in> set (run_queries qs self) \<Longrightarrow> h = self"
proof (induction qs self rule: run_queries.induct)
  case (1 self)
  then show ?case by simp
next
  case (2 w q qs self)
  then show ?case
    using run_query_handle [of w q self] by (auto simp: prod_eq_iff)
qed

lemma GitFolder_init_raises:
  "GitFolder_init w c g = Inl (Raised k m) \<Longrightarrow> k = NotGitRepositoryError"
  by (auto simp: GitFolder_init_def split: sum.splits option.splits)

lemma run_git_raises:
  "fst (run_git w args self) = Inl (Raised k m) \<Longrightarrow> k = GitNotFoundError \<or> k = GitError"
  by (auto simp: run_git_def Let_def split: check_output_result.splits option.splits if_splits)

lemma run_query_raises:
  "fst (run_query w q self) = Inl (Raised k m) \<Longrightarrow> k = GitNotFoundError \<or> k = GitError"
  using run_git_raises [of w "query_args q" self k m]
  by (cases "fst (run_git w (query_args q) self)") (auto simp: run_query_result)

section \<open>Construction of a handle\<close>



text \<open>
  Claim C7. The root of every handle that construction returns is an ancestor of, or
  equal to, its working directory; every operation (a query, or \<open>run_git\<close> with any
  arguments, against any world) leaves the handle as it was, so each handle of a
  sequence of operations still has the property.
\<close>

theorem root_ancestor_of_cwd:
  assumes "GitFolder_init w c g = Inr self"
  shows "ancestor_or_self (root self) (cwd self) \<and>
         (\<forall>h \<in> set (handles_after xs self).
            h = self \<and> ancestor_or_self (root h) (cwd h))"
proof -
  obtain d r where "resolve w (Path c) = Inr d" "find_git_root w (OfPath d) = Some r"
    "self = \<lparr>cwd = d, root = r, git_exec = (case g of None \<Rightarrow> ''git'' | Some x \<Rightarrow> x)\<rparr>"
    using assms by (auto simp: GitFolder_init_def split: sum.splits option.splits)
  then have "ancestor_or_self (root self) (cwd self)"
    using find_git_root_Some_ancestor [of w "OfPath d" r] by simp
  then show ?thesis
    using handles_after_same by blast
qed

theorem root_ancestor_of_cwd_witness:
  "GitFolder_init (scenario_world (Exited 0 [] [])) (OfStr ''/repo/sub/deep'') None =
     Inr \<lparr>cwd = \<lparr>anchor = ''/'', tail = [''repo'', ''sub'', ''deep'']\<rparr>,
          root = \<lparr>anchor = ''/'', tail = [''repo'']\<rparr>, git_exec = ''git''\<rparr> \<and>
   ancestor_or_self \<lparr>anchor = ''/'', tail = [''repo'']\<rparr>
     \<lparr>anchor = ''/'', tail = [''repo'', ''sub'', ''deep'']\<rparr> \<and>
   ancestor_or_self
     (root (last (handles_after
        [(scenario_world (Exited 1 [] ''fatal: not a repo''), Query Tracked_files),
         (scenario_world (NotStarted FileNotFoundError), Run_git [''status''])]
        \<lparr>cwd = \<lparr>anchor = ''/'', tail = [''repo'', ''sub'', ''deep'']\<rparr>,
          root = \<lparr>anchor = ''/'', tail = [''repo'']\<rparr>, git_exec = ''git''\<rparr>)))
     (cwd (last (handles_after
        [(scenario_world (Exited 1 [] ''fatal: not a repo''), Query Tracked_files),
         (scenario_world (NotStarted FileNotFoundError), Run_git [''status''])]
        \<lparr>cwd = \<lparr>anchor = ''/'', tail = [''repo'', ''sub'', ''deep'']\<rparr>,
          root = \<lparr>anchor = ''/'', tail = [''repo'']\<rparr>, git_exec = ''git''\<rparr>)))"
proof -
  let ?h = "\<lparr>cwd = \<lparr>anchor = ''/'', tail = [''repo'', ''sub'', ''deep'']\<rparr>,
          root = \<lparr>anchor = ''/'', tail = [''repo'']\<rparr>, git_exec = ''git''\<rparr>"
  let ?xs = "[(scenario_world (Exited 1 [] ''fatal: not a repo''), Query Tracked_files),
         (scenario_world (NotStarted FileNotFoundError), Run_git [''status''])]"
  have init:
    "GitFolder_init (scenario_world (Exited 0 [] [])) (OfStr ''/repo/sub/deep'') None = Inr ?h"
    by code_simp
  have mem: "last (handles_after ?xs ?h) \<in> set (handles_after ?xs ?h)"
    by (rule last_in_set) simp
  from root_ancestor_of_cwd [OF init, of ?xs] mem
  have "ancestor_or_self (root ?h) (cwd ?h) \<and>
      ancestor_or_self (root (last (handles_after ?xs ?h))) (cwd (last (handles_after ?xs ?h)))"
    by blast
  with init show ?thesis
    by simp
qed

section \<open>Failures of the external tool\<close>

text \<open>
  When the tool exits with a status other than 0 and its standard error is well-formed
  UTF-8, \<open>run_git\<close> raises \<open>GitError\<close>; the message holds the \<open>repr\<close> of the command line,
  the working directory and the standard error as it is, and a query passes the
  exception on.
\<close>

lemma run_git_CommandFailed_decodable:
  assumes "run_process w (git_exec self # args) (PurePath_str (cwd self)) = Exited rc out err"
    and "rc \<noteq> 0" and "decode err = Some text"
  shows "fst (run_git w args self) =
           Inl (Raised GitError
                  (''git command '' @ repr w (join '' '' (git_exec self # args)) @
                   '' failed in '' @ PurePath_str (cwd self) @ '': '' @ err)) \<and>
         (args = query_args q \<longrightarrow>
            (\<exists>m. fst (run_query w q self) = Inl (Raised GitError m) \<and> sublist err m))"
proof -
  have "text = err"
    using assms(3) by (auto simp: decode_def split: if_splits)
  then have r: "fst (run_git w args self) =
           Inl (Raised GitError
                  (''git command '' @ repr w (join '' '' (git_exec self # args)) @
                   '' failed in '' @ PurePath_str (cwd self) @ '': '' @ err))"
    using assms by (simp add: run_git_started)
  have "sublist err (''git command '' @ repr w (join '' '' (git_exec self # args)) @
                   '' failed in '' @ PurePath_str (cwd self) @ '': '' @ err)"
    by (metis sublist_appendI append.assoc append_Nil2)
  with r show ?thesis
    by (auto simp: run_query_result)
qed

text \<open>
  The scenario of the specification: exit status 1 with the standard error
  \<open>fatal: not a repo\<close>.
\<close>

lemma scenario_fatal_not_a_repo:
  "fst (tracked_files (scenario_world (Exited 1 [] ''fatal: not a repo'')) scenario_handle) =
     Inl (Raised GitError
            (''git command '' @ [CHR 0x27] @ ''git ls-files --recurse-submodules -z'' @ [CHR 0x27] @
             '' failed in /repo/sub: fatal: not a repo''))"
  by code_simp

text \<open>
  Claim C5 says that every exit of the tool with a status other than 0 makes \<open>run_git\<close>
  fail with \<open>GitError\<close>, as the docstring of \<open>run_git\<close> does. At exit status 1 with the
  standard error \<open>b"\xff"\<close>, which is not UTF-8, the strict \<open>decode\<close> of line 84 raises
  while the message is built: \<open>UnicodeDecodeError\<close> leaves \<open>run_git\<close> and the query
  \<open>tracked_files\<close>, and a handler \<open>except GitError\<close> does not catch it.
\<close>

theorem run_git_undecodable_stderr:
  "fst (run_git (scenario_world (Exited 1 [] [CHR 0xFF])) [''ls-files'', ''-z''] scenario_handle)
     = Inl (Propagated UnicodeDecodeError) \<and>
   fst (tracked_files (scenario_world (Exited 1 [] [CHR 0xFF])) scenario_handle)
     = Inl (Propagated UnicodeDecodeError) \<and>
   \<not> catches GitError (Propagated UnicodeDecodeError)"
  by code_simp




section \<open>The file sets\<close>

text \<open>
  Claim C2. When the tool exits with status 0, a query returns the set of the records
  of the raw output, each decoded, parsed as a slash-separated path and joined to the
  working directory of the handle; a record that does not begin with \<open>/\<close> gives the
  working directory followed by the components of the record. With the working
  directory \<open>/repo/sub\<close> and the raw output \<open>b"a.txt\0dir/b.txt\0"\<close>, \<open>tracked_files\<close>
  returns exactly \<open>/repo/sub/a.txt\<close> and \<open>/repo/sub/dir/b.txt\<close>.
\<close>

theorem queries_join_records_with_cwd:
  "(run_process w (git_exec self # query_args q) (PurePath_str (cwd self)) = Exited 0 outb err
      \<longrightarrow> fst (run_query w q self) =
            Inr ((\<lambda>loc. truediv (cwd self) (PurePosixPath (fsdecode loc))) ` set (records outb))) \<and>
   (take 1 (fsdecode loc) \<noteq> ''/'' \<longrightarrow>
      truediv (cwd self) (PurePosixPath (fsdecode loc)) =
        \<lparr>anchor = anchor (cwd self),
         tail = tail (cwd self) @
                filter (\<lambda>x. x \<noteq> [] \<and> x \<noteq> ''.'') (split CHR ''/'' (fsdecode loc))\<rparr>) \<and>
   fst (tracked_files (scenario_world (Exited 0 (''a.txt'' @ [NUL] @ ''dir/b.txt'' @ [NUL]) []))
          scenario_handle) =
     Inr {\<lparr>anchor = ''/'', tail = [''repo'', ''sub'', ''a.txt'']\<rparr>,
          \<lparr>anchor = ''/'', tail = [''repo'', ''sub'', ''dir'', ''b.txt'']\<rparr>}"
proof (intro conjI impI)
  assume "run_process w (git_exec self # query_args q) (PurePath_str (cwd self)) = Exited 0 outb err"
  then show "fst (run_query w q self) =
      Inr ((\<lambda>loc. truediv (cwd self) (PurePosixPath (fsdecode loc))) ` set (records outb))"
    by (simp add: run_query_output path_set_def)
next
  assume "take 1 (fsdecode loc) \<noteq> ''/''"
  then show "truediv (cwd self) (PurePosixPath (fsdecode loc)) =
      \<lparr>anchor = anchor (cwd self),
       tail = tail (cwd self) @
              filter (\<lambda>x. x \<noteq> [] \<and> x \<noteq> ''.'') (split CHR ''/'' (fsdecode loc))\<rparr>"
    by (rule truediv_relative)
next
  show "fst (tracked_files (scenario_world (Exited 0 (''a.txt'' @ [NUL] @ ''dir/b.txt'' @ [NUL]) []))
          scenario_handle) =
     Inr {\<lparr>anchor = ''/'', tail = [''repo'', ''sub'', ''a.txt'']\<rparr>,
          \<lparr>anchor = ''/'', tail = [''repo'', ''sub'', ''dir'', ''b.txt'']\<rparr>}"
    by code_simp
qed

theorem queries_join_records_with_cwd_witness:
  "fst (new_files (scenario_world (Exited 0 (''x/./y'' @ [NUL] @ ''x//y'' @ [NUL]) []))
          scenario_handle) =
     Inr {\<lparr>anchor = ''/'', tail = [''repo'', ''sub'', ''x'', ''y'']\<rparr>}"
proof -
  let ?out = "''x/./y'' @ [NUL] @ ''x//y'' @ [NUL]"
  let ?w = "scenario_world (Exited 0 ?out [])"
  have run: "run_process ?w (git_exec scenario_handle # query_args New_files)
      (PurePath_str (cwd scenario_handle)) = Exited 0 ?out []"
    by (simp add: scenario_world_def)
  have "fst (run_query ?w New_files scenario_handle) =
      Inr ((\<lambda>loc. truediv (cwd scenario_handle) (PurePosixPath (fsdecode loc))) `
             set (records ?out))"
    using queries_join_records_with_cwd [of ?w scenario_handle New_files ?out "[]"] run
    by blast
  moreover
  have "(\<lambda>loc. truediv (cwd scenario_handle) (PurePosixPath (fsdecode loc))) ` set (records ?out)
      = {\<lparr>anchor = ''/'', tail = [''repo'', ''sub'', ''x'', ''y'']\<rparr>}"
    by code_simp
  ultimately show ?thesis
    by simp
qed



text \<open>
  Claim C10. When the tool exits with status 0 and a record of its output begins with
  \<open>/\<close>, the path of the record is absolute, joining it to the working directory gives
  the path of the record itself, and the set the query returns contains it. In the
  witness the result \<open>/etc/passwd\<close> does not lie under the working directory \<open>/repo/sub\<close>.
\<close>

theorem absolute_record_kept:
  assumes "run_process w (git_exec self # query_args q) (PurePath_str (cwd self)) = Exited 0 outb err"
    and "loc \<in> set (records outb)"
    and "take 1 (fsdecode loc) = ''/''"
  shows "\<exists>S. fst (run_query w q self) = Inr S \<and>
           PurePosixPath (fsdecode loc) \<in> S \<and>
           anchor (PurePosixPath (fsdecode loc)) \<noteq> [] \<and>
           truediv (cwd self) (PurePosixPath (fsdecode loc)) = PurePosixPath (fsdecode loc)"
proof -
  have "truediv (cwd self) (PurePosixPath (fsdecode loc)) \<in> path_set (cwd self) outb"
    using assms(2) by (auto simp: path_set_def)
  then show ?thesis
    using assms(1,3) by (simp add: run_query_output truediv_absolute PurePosixPath_absolute)
qed

theorem absolute_record_kept_witness:
  "fst (run_query (scenario_world (Exited 0 (''/etc/passwd'' @ [NUL]) [])) Tracked_files
          scenario_handle) =
     Inr {\<lparr>anchor = ''/'', tail = [''etc'', ''passwd'']\<rparr>} \<and>
   \<not> ancestor_or_self (cwd scenario_handle) \<lparr>anchor = ''/'', tail = [''etc'', ''passwd'']\<rparr>"
proof -
  let ?out = "''/etc/passwd'' @ [NUL]"
  let ?w = "scenario_world (Exited 0 ?out [])"
  have run: "run_process ?w (git_exec scenario_handle # query_args Tracked_files)
      (PurePath_str (cwd scenario_handle)) = Exited 0 ?out []"
    by (simp add: scenario_world_def)
  have mem: "''/etc/passwd'' \<in> set (records ?out)"
    by code_simp
  have abs: "take 1 (fsdecode ''/etc/passwd'') = ''/''"
    by code_simp
  have p: "PurePosixPath (fsdecode ''/etc/passwd'') = \<lparr>anchor = ''/'', tail = [''etc'', ''passwd'']\<rparr>"
    by code_simp
  have only: "path_set (cwd scenario_handle) ?out \<subseteq> {\<lparr>anchor = ''/'', tail = [''etc'', ''passwd'']\<rparr>}"
    by code_simp
  have out: "\<not> ancestor_or_self (cwd scenario_handle) \<lparr>anchor = ''/'', tail = [''etc'', ''passwd'']\<rparr>"
    by code_simp
  from absolute_record_kept [OF run mem abs] p
  obtain S where S: "fst (run_query ?w Tracked_files scenario_handle) = Inr S"
    "\<lparr>anchor = ''/'', tail = [''etc'', ''passwd'']\<rparr> \<in> S"
    by auto
  have "fst (run_query ?w Tracked_files scenario_handle) = Inr (path_set (cwd scenario_handle) ?out)"
    using run by (rule run_query_output)
  with S(1) have "S = path_set (cwd scenario_handle) ?out"
    by (simp only: sum.inject)
  with S only have "S = {\<lparr>anchor = ''/'', tail = [''etc'', ''passwd'']\<rparr>}"
    by blast
  with S(1) out show ?thesis
    by simp
qed

section \<open>Sessions of queries\<close>

text \<open>
  Claim C9. For every handle and every sequence of queries (any order, any repetition,
  each against its own world, whether it returns or raises), the handle after each
  query is the handle before the first: its root, its working directory and its
  executable path have the values they had.
\<close>

theorem queries_keep_handle:
  "\<forall>(r, h) \<in> set (run_queries qs self).
     h = self \<and> root h = root self \<and> cwd h = cwd self \<and> git_exec h = git_exec self"
  using run_queries_same by fastforce

theorem queries_keep_handle_witness:
  "map fst (run_queries
      [(scenario_world (Exited 0 (''a.txt'' @ [NUL]) []), Tracked_files),
       (scenario_world (Exited 0 [] []), Removed_files),
       (scenario_world (NotStarted FileNotFoundError), New_files),
       (scenario_world (Exited 0 (''a.txt'' @ [NUL]) []), Tracked_files)]
      scenario_handle) =
     [Inr {\<lparr>anchor = ''/'', tail = [''repo'', ''sub'', ''a.txt'']\<rparr>},
      Inr {},
      Inl (Raised GitNotFoundError []),
      Inr {\<lparr>anchor = ''/'', tail = [''repo'', ''sub'', ''a.txt'']\<rparr>}] \<and>
   snd (last (run_queries
      [(scenario_world (Exited 0 (''a.txt'' @ [NUL]) []), Tracked_files),
       (scenario_world (Exited 0 [] []), Removed_files),
       (scenario_world (NotStarted FileNotFoundError), New_files),
       (scenario_world (Exited 0 (''a.txt'' @ [NUL]) []), Tracked_files)]
      scenario_handle)) = scenario_handle"
proof -
  let ?qs = "[(scenario_world (Exited 0 (''a.txt'' @ [NUL]) []), Tracked_files),
       (scenario_world (Exited 0 [] []), Removed_files),
       (scenario_world (NotStarted FileNotFoundError), New_files),
       (scenario_world (Exited 0 (''a.txt'' @ [NUL]) []), Tracked_files)]"
  have results: "map fst (run_queries ?qs scenario_handle) =
     [Inr {\<lparr>anchor = ''/'', tail = [''repo'', ''sub'', ''a.txt'']\<rparr>},
      Inr {},
      Inl (Raised GitNotFoundError []),
      Inr {\<lparr>anchor = ''/'', tail = [''repo'', ''sub'', ''a.txt'']\<rparr>}]"
    by code_simp
  define after where "after = run_queries ?qs scenario_handle"
  have "after \<noteq> []"
    by (simp add: after_def)
  then have mem: "last after \<in> set after"
    by (rule last_in_set)
  have "\<forall>(r, h) \<in> set after.
      h = scenario_handle \<and> root h = root scenario_handle \<and> cwd h = cwd scenario_handle \<and>
      git_exec h = git_exec scenario_handle"
    unfolding after_def by (rule queries_keep_handle)
  with mem have "snd (last after) = scenario_handle"
    by (auto simp: case_prod_beta)
  with results show ?thesis
    by (simp add: after_def)
qed

section \<open>Telling the failures apart\<close>

text \<open>
  Claim C8. The three kinds of failure are three classes that a caller can tell apart:
  with the handlers \<open>except NotGitRepositoryError\<close>, \<open>except GitNotFoundError\<close> and
  \<open>except GitError\<close> in this order, an exception reaches the first handler exactly when
  its class is \<open>NotGitRepositoryError\<close>, the second exactly when it is
  \<open>GitNotFoundError\<close>, and the third exactly when it is \<open>GitError\<close> itself. The
  constructor raises no exception of its own but \<open>NotGitRepositoryError\<close>; \<open>run_git\<close> and
  the queries raise none of their own but \<open>GitNotFoundError\<close> and \<open>GitError\<close>.
\<close>

theorem error_kinds_distinguishable:
  "(first_catching [NotGitRepositoryError, GitNotFoundError, GitError] e = Some NotGitRepositoryError
      \<longleftrightarrow> class_of e = NotGitRepositoryError) \<and>
   (first_catching [NotGitRepositoryError, GitNotFoundError, GitError] e = Some GitNotFoundError
      \<longleftrightarrow> class_of e = GitNotFoundError) \<and>
   (first_catching [NotGitRepositoryError, GitNotFoundError, GitError] e = Some GitError
      \<longleftrightarrow> class_of e = GitError) \<and>
   (\<forall>k m. GitFolder_init w c g = Inl (Raised k m) \<longrightarrow> k = NotGitRepositoryError) \<and>
   (\<forall>k m. fst (run_git w args self) = Inl (Raised k m) \<longrightarrow> k = GitNotFoundError \<or> k = GitError) \<and>
   (\<forall>k m. fst (run_query w q self) = Inl (Raised k m) \<longrightarrow> k = GitNotFoundError \<or> k = GitError)"
proof -
  have "(first_catching [NotGitRepositoryError, GitNotFoundError, GitError] e
           = Some NotGitRepositoryError
      \<longleftrightarrow> class_of e = NotGitRepositoryError) \<and>
   (first_catching [NotGitRepositoryError, GitNotFoundError, GitError] e = Some GitNotFoundError
      \<longleftrightarrow> class_of e = GitNotFoundError) \<and>
   (first_catching [NotGitRepositoryError, GitNotFoundError, GitError] e = Some GitError
      \<longleftrightarrow> class_of e = GitError)"
    by (cases "class_of e") (simp_all add: catches_def issubclass_def)
  then show ?thesis
    using GitFolder_init_raises run_git_raises run_query_raises by blast
qed

theorem error_kinds_distinguishable_witness:
  "GitFolder_init (scenario_world (Exited 0 [] [])) (OfStr ''/other'') None =
     Inl (Raised NotGitRepositoryError ''Unable to find git repository root from: /other'') \<and>
   first_catching [NotGitRepositoryError, GitNotFoundError, GitError]
     (Raised NotGitRepositoryError ''Unable to find git repository root from: /other'')
     = Some NotGitRepositoryError \<and>
   fst (new_files (scenario_world (NotStarted FileNotFoundError)) scenario_handle) =
     Inl (Raised GitNotFoundError []) \<and>
   first_catching [NotGitRepositoryError, GitNotFoundError, GitError] (Raised GitNotFoundError [])
     = Some GitNotFoundError \<and>
   fst (run_git (scenario_world (Exited 1 [] ''fatal'')) [''status''] scenario_handle) =
     Inl (Raised GitError
            (''git command '' @ [CHR 0x27] @ ''git status'' @ [CHR 0x27] @
             '' failed in /repo/sub: fatal'')) \<and>
   first_catching [NotGitRepositoryError, GitNotFoundError, GitError]
     (Raised GitError
        (''git command '' @ [CHR 0x27] @ ''git status'' @ [CHR 0x27] @
         '' failed in /repo/sub: fatal''))
     = Some GitError"
proof -
  let ?m = "''git command '' @ [CHR 0x27] @ ''git status'' @ [CHR 0x27] @
         '' failed in /repo/sub: fatal''"
  have raised:
    "GitFolder_init (scenario_world (Exited 0 [] [])) (OfStr ''/other'') None =
       Inl (Raised NotGitRepositoryError ''Unable to find git repository root from: /other'')"
    "fst (new_files (scenario_world (NotStarted FileNotFoundError)) scenario_handle) =
       Inl (Raised GitNotFoundError [])"
    "fst (run_git (scenario_world (Exited 1 [] ''fatal'')) [''status''] scenario_handle) =
       Inl (Raised GitError ?m)"
    by code_simp+
  have classes:
    "class_of (Raised NotGitRepositoryError ''Unable to find git repository root from: /other'')
      = NotGitRepositoryError"
    "class_of (Raised GitNotFoundError []) = GitNotFoundError"
    "class_of (Raised GitError ?m) = GitError"
    by simp_all
  from classes
    error_kinds_distinguishable
      [of "Raised NotGitRepositoryError ''Unable to find git repository root from: /other''",
       THEN conjunct1]
    error_kinds_distinguishable [of "Raised GitNotFoundError []", THEN conjunct2, THEN conjunct1]
    error_kinds_distinguishable
      [of "Raised GitError ?m", THEN conjunct2, THEN conjunct2, THEN conjunct1]
  have "first_catching [NotGitRepositoryError, GitNotFoundError, GitError]
       (Raised NotGitRepositoryError ''Unable to find git repository root from: /other'')
       = Some NotGitRepositoryError \<and>
     first_catching [NotGitRepositoryError, GitNotFoundError, GitError] (Raised GitNotFoundError [])
       = Some GitNotFoundError \<and>
     first_catching [NotGitRepositoryError, GitNotFoundError, GitError] (Raised GitError ?m)
       = Some GitError"
    by blast
  with raised show ?thesis
    by blast
qed

end
